theory Spec2Isabelle
  imports Main "HOL-Library.Word"
begin

section \<open>Values of the runtime\<close>

text \<open>
  A JavaScript string is a sequence of UTF-16 code units; \<open>substring\<close> and \<open>length\<close>
  count code units. The Korean literals of \<^verbatim>\<open>server.js\<close> are written out as their
  code units.
\<close>

type_synonym jsstring = "16 word list"

definition ascii :: "string \<Rightarrow> jsstring" where
  "ascii s = map (\<lambda>c. of_nat (of_char c)) s"

text \<open>
  An optional string field is \<open>None\<close> when the property is \<^verbatim>\<open>undefined\<close> (or
  \<^verbatim>\<open>null\<close>). \<^verbatim>\<open>a || b\<close> yields \<open>b\<close> when \<open>a\<close> is falsy: undefined or
  the empty string.
\<close>

definition truthy :: "jsstring option \<Rightarrow> bool" where
  "truthy v = (case v of None \<Rightarrow> False | Some s \<Rightarrow> s \<noteq> [])"

definition js_or :: "jsstring option \<Rightarrow> jsstring option \<Rightarrow> jsstring option" where
  "js_or a b = (if truthy a then a else b)"

definition js_or_str :: "jsstring option \<Rightarrow> jsstring \<Rightarrow> jsstring" where
  "js_or_str a d = (case a of None \<Rightarrow> d | Some s \<Rightarrow> if s \<noteq> [] then s else d)"

datatype js_error = Error jsstring | TypeError jsstring

fun message :: "js_error \<Rightarrow> jsstring" where
  "message (Error m) = m"
| "message (TypeError m) = m"

subsection \<open>Dates\<close>

text \<open>
  A \<^verbatim>\<open>Date\<close> holds a time value in milliseconds since the epoch, or NaN (an invalid
  date), here \<open>None\<close>. \<^verbatim>\<open>new Date(v)\<close> of \<^verbatim>\<open>undefined\<close> is invalid; of a string it
  is what the engine's date parser makes of it, which is a parameter of the model.
  \<^verbatim>\<open>a > b\<close> on two dates compares their time values and is false when one is NaN.
\<close>

definition new_Date :: "(jsstring \<Rightarrow> int option) \<Rightarrow> jsstring option \<Rightarrow> int option" where
  "new_Date parse v = (case v of None \<Rightarrow> None | Some s \<Rightarrow> parse s)"

definition date_gt :: "int option \<Rightarrow> int \<Rightarrow> bool" where
  "date_gt d y = (case d of None \<Rightarrow> False | Some t \<Rightarrow> y < t)"

text \<open>
  The process's time zone, as ECMAScript has it: \<open>tza_utc t\<close> is the local offset in
  milliseconds at the UTC time value \<open>t\<close> (LocalTZA(t, true)), \<open>tza_local t\<close> the offset
  for the local time value \<open>t\<close> (LocalTZA(t, false)).
\<close>

record timezone =
  tza_utc :: "int \<Rightarrow> int"
  tza_local :: "int \<Rightarrow> int"

definition msPerDay :: int where
  "msPerDay = 86400000"

definition LocalTime :: "timezone \<Rightarrow> int \<Rightarrow> int" where
  "LocalTime z t = t + tza_utc z t"

definition UTC :: "timezone \<Rightarrow> int \<Rightarrow> int" where
  "UTC z t = t - tza_local z t"

text \<open>
  \<^verbatim>\<open>const yesterday = new Date(); yesterday.setDate(yesterday.getDate() - 1);\<close>
  \<^verbatim>\<open>setDate\<close> works on the local time: it keeps the time within the day and moves the
  day number back by one (MakeDay takes a day of the month of 0 to the last day of the
  month before), so the new local time value is the old one less \<open>msPerDay\<close>, which is
  then converted back from local time. The clock's readings are far inside the range of
  time values, so nothing is clipped.
\<close>

definition yesterday :: "timezone \<Rightarrow> int \<Rightarrow> int" where
  "yesterday z now = UTC z (LocalTime z now - msPerDay)"

section \<open>Data\<close>

text \<open>
  An item of a parsed feed, as the feed parser hands it over: its title and link are
  strings, and each of the fields that the code reads through \<^verbatim>\<open>||\<close> may be missing.
\<close>

record item =
  item_title :: jsstring
  item_link :: jsstring
  item_pubDate :: "jsstring option"
  item_isoDate :: "jsstring option"
  item_contentSnippet :: "jsstring option"
  item_content :: "jsstring option"
  item_summary :: "jsstring option"

record feed =
  feed_title :: "jsstring option"
  items :: "item list"

text \<open>The object literal built in \<^verbatim>\<open>fetchLatestArticles\<close>.\<close>

record article =
  title :: jsstring
  link :: jsstring
  content :: jsstring
  source :: jsstring
  pubDate :: "jsstring option"
  summary :: jsstring

text \<open>
  The request of \<^verbatim>\<open>openai.chat.completions.create\<close> and what it resolves to. A
  message of the request is its role and its content; the temperature 0.7 is held in
  tenths.
\<close>

record chat_request =
  model :: jsstring
  messages :: "(jsstring \<times> jsstring) list"
  max_tokens :: nat
  temperature_tenths :: nat

record chat_message =
  message_content :: "jsstring option"

record choice =
  choice_message :: "chat_message option"

record completion =
  choices :: "choice list"

text \<open>Blocks of the document service.\<close>

record rich_text =
  text_content :: jsstring
  text_link :: "jsstring option"
  bold :: bool
  color :: "jsstring option"

datatype block =
  Heading_2 "rich_text list"
| Heading_3 "rich_text list"
| Paragraph "rich_text list"
| Divider

record append_request =
  block_id :: "jsstring option"
  children :: "block list"

text \<open>
  \<^verbatim>\<open>processedArticles\<close>, a \<^verbatim>\<open>Set\<close>: its elements in insertion order, each once.
\<close>

type_synonym seen = "jsstring list"

definition has :: "seen \<Rightarrow> jsstring \<Rightarrow> bool" where
  "has s x = (x \<in> set s)"

definition add :: "jsstring \<Rightarrow> seen \<Rightarrow> seen" where
  "add x s = (if x \<in> set s then s else s @ [x])"

section \<open>The world outside\<close>

text \<open>
  What one run of the pipeline reads from outside the program:
  the time zone and the date parser of the engine; \<open>clock u\<close>, the reading of
  \<^verbatim>\<open>new Date()\<close> taken once the feed \<open>u\<close> has been parsed; \<open>parseURL\<close>, the feed
  parser, which rejects or resolves to a feed; \<open>create n r\<close>, the answer of the language
  model to the request \<open>r\<close>, the \<open>n\<close>-th of the run; \<open>today\<close>, the rendering by
  \<^verbatim>\<open>toLocaleDateString('ko-KR')\<close> of the date at the publish step;
  \<^verbatim>\<open>process.env.NOTION_PAGE_ID\<close>; and \<open>append\<close>, the document service.
\<close>

record env =
  tz :: timezone
  dateParse :: "jsstring \<Rightarrow> int option"
  clock :: "jsstring \<Rightarrow> int"
  parseURL :: "jsstring \<Rightarrow> js_error + feed"
  create :: "nat \<Rightarrow> chat_request \<Rightarrow> js_error + completion"
  today :: jsstring
  NOTION_PAGE_ID :: "jsstring option"
  append :: "append_request \<Rightarrow> js_error + unit"

text \<open>
  What a run does, in order: the calls to the three services, the calls of
  \<^verbatim>\<open>processedArticles.add\<close> and \<^verbatim>\<open>setTimeout\<close>, and the lines written to the
  console (one constructor for each \<^verbatim>\<open>console.log\<close> and \<^verbatim>\<open>console.error\<close> of the
  source, with its arguments).
\<close>

datatype event =
  Log_Fetching jsstring
| Call_parseURL jsstring
| Error_fetching jsstring jsstring
| Call_create chat_request
| Error_summarizing js_error
| Call_append append_request
| Log_added nat
| Error_adding js_error
| Log_starting
| Log_found nat
| Log_no_new
| Log_summarizing jsstring
| Seen_add jsstring
| Set_timeout nat
| Log_completed

section \<open>Fetching and filtering\<close>

definition RSS_FEEDS :: "jsstring list" where
  "RSS_FEEDS = map ascii
     [''https://openai.com/blog/rss.xml'',
      ''https://www.deepmind.com/blog/rss'',
      ''https://www.anthropic.com/feed.xml'',
      ''https://ai.googleblog.com/feeds/posts/default'',
      ''https://ai.facebook.com/blog/rss/'',
      ''https://www.microsoft.com/en-us/research/feed/'',
      ''https://huggingface.co/blog/rss'',
      ''https://www.eleuther.ai/feed.xml'']"

text \<open>\<^verbatim>\<open>new Date(item.pubDate || item.isoDate)\<close>\<close>

definition item_date :: "env \<Rightarrow> item \<Rightarrow> int option" where
  "item_date e it = new_Date (dateParse e) (js_or (item_pubDate it) (item_isoDate it))"

text \<open>The first conjunct of the filter: \<^verbatim>\<open>pubDate > yesterday\<close>.\<close>

definition isRecent :: "env \<Rightarrow> int \<Rightarrow> item \<Rightarrow> bool" where
  "isRecent e y it = date_gt (item_date e it) y"

text \<open>
  The function given to \<^verbatim>\<open>filter\<close>:
  \<^verbatim>\<open>pubDate > yesterday && !processedArticles.has(item.link)\<close>.
\<close>

definition keep :: "env \<Rightarrow> int \<Rightarrow> seen \<Rightarrow> item \<Rightarrow> bool" where
  "keep e y s it = (isRecent e y it \<and> \<not> has s (item_link it))"

text \<open>The function given to \<^verbatim>\<open>map\<close>.\<close>

definition to_article :: "feed \<Rightarrow> jsstring \<Rightarrow> item \<Rightarrow> article" where
  "to_article f feedUrl it =
     \<lparr>title = item_title it,
      link = item_link it,
      content = js_or_str (js_or (item_contentSnippet it) (item_content it)) [],
      source = js_or_str (feed_title f) feedUrl,
      pubDate = js_or (item_pubDate it) (item_isoDate it),
      summary = js_or_str (item_summary it) []\<rparr>"

text \<open>
  One turn of the loop over \<^verbatim>\<open>RSS_FEEDS\<close>: the \<^verbatim>\<open>try\<close> block, and the \<^verbatim>\<open>catch\<close>
  that logs the rejection of \<^verbatim>\<open>parseURL\<close> and leaves \<^verbatim>\<open>allArticles\<close> as it was.
\<close>

definition fetch_feed :: "env \<Rightarrow> seen \<Rightarrow> jsstring \<Rightarrow> article list \<times> event list" where
  "fetch_feed e s feedUrl =
     (case parseURL e feedUrl of
        Inl error \<Rightarrow>
          ([], [Log_Fetching feedUrl, Call_parseURL feedUrl,
                Error_fetching feedUrl (message error)])
      | Inr f \<Rightarrow>
          (let y = yesterday (tz e) (clock e feedUrl);
               recentArticles = map (to_article f feedUrl) (filter (keep e y s) (items f))
           in (recentArticles, [Log_Fetching feedUrl, Call_parseURL feedUrl])))"

fun fetch_loop :: "env \<Rightarrow> seen \<Rightarrow> jsstring list \<Rightarrow> article list \<times> event list" where
  "fetch_loop e s [] = ([], [])"
| "fetch_loop e s (feedUrl # rest) =
     (let (recentArticles, t1) = fetch_feed e s feedUrl;
          (allArticles, t2) = fetch_loop e s rest
      in (recentArticles @ allArticles, t1 @ t2))"

definition fetchLatestArticles :: "env \<Rightarrow> seen \<Rightarrow> article list \<times> event list" where
  "fetchLatestArticles e s = fetch_loop e s RSS_FEEDS"

section \<open>Summarizing\<close>

text \<open>
  The fixed parts of the prompt, in Korean: the instruction to summarize the following
  AI blog post in Korean with its key content and insights, up to the label of the title;
  the labels of the source and of the content; and, after three dots, the format asked
  for (key content in 2 to 3 sentences, main technologies and concepts, implications)
  and the limit of 300 characters, up to the closing line of the literal.
\<close>

definition prompt_head :: jsstring where
  "prompt_head =
     [0xA, 0xB2E4, 0xC74C, 0x20, 0x41, 0x49, 0x20, 0xAD00, 0xB828, 0x20, 0xBE14, 0xB85C,
      0xADF8, 0x20, 0xAE00, 0xC744, 0x20, 0xD55C, 0xAD6D, 0xC5B4, 0xB85C, 0x20, 0xC694,
      0xC57D, 0xD574, 0xC8FC, 0xC138, 0xC694, 0x2E, 0x20, 0xD575, 0xC2EC, 0x20, 0xB0B4,
      0xC6A9, 0xACFC, 0x20, 0xC8FC, 0xC694, 0x20, 0xC778, 0xC0AC, 0xC774, 0xD2B8, 0xB97C,
      0x20, 0xD3EC, 0xD568, 0xD574, 0xC8FC, 0xC138, 0xC694, 0x3A, 0xA, 0xA, 0xC81C, 0xBAA9,
      0x3A, 0x20]"

definition prompt_source :: jsstring where
  "prompt_source = [0xA, 0xCD9C, 0xCC98, 0x3A, 0x20]"

definition prompt_content :: jsstring where
  "prompt_content = [0xA, 0xB0B4, 0xC6A9, 0x3A, 0x20]"

definition prompt_tail :: jsstring where
  "prompt_tail =
     [0x2E, 0x2E, 0x2E, 0xA, 0xA, 0xC694, 0xC57D, 0x20, 0xD615, 0xC2DD, 0x3A, 0xA, 0x31,
      0x2E, 0x20, 0xD575, 0xC2EC, 0x20, 0xB0B4, 0xC6A9, 0x20, 0x28, 0x32, 0x2D, 0x33,
      0xBB38, 0xC7A5, 0x29, 0xA, 0x32, 0x2E, 0x20, 0xC8FC, 0xC694, 0x20, 0xAE30, 0xC220,
      0x2F, 0xAC1C, 0xB150, 0xA, 0x33, 0x2E, 0x20, 0xC2DC, 0xC0AC, 0xC810, 0x20, 0xBC0F,
      0x20, 0xC758, 0xBBF8, 0xA, 0xA, 0xC694, 0xC57D, 0xC740, 0x20, 0x33, 0x30, 0x30,
      0xC790, 0x20, 0xC774, 0xB0B4, 0xB85C, 0x20, 0xC791, 0xC131, 0xD574, 0xC8FC, 0xC138,
      0xC694, 0x2E, 0xA, 0x20, 0x20, 0x20, 0x20, 0x20, 0x20, 0x20, 0x20]"

text \<open>The template literal; \<^verbatim>\<open>substring(0, 2000)\<close> keeps the first 2000 code units.\<close>

definition prompt :: "article \<Rightarrow> jsstring" where
  "prompt a =
     prompt_head @ title a @ prompt_source @ source a @ prompt_content
       @ take 2000 (content a) @ prompt_tail"

definition request :: "article \<Rightarrow> chat_request" where
  "request a =
     \<lparr>model = ascii ''gpt-4'',
      messages = [(ascii ''user'', prompt a)],
      max_tokens = 500,
      temperature_tenths = 7\<rparr>"

text \<open>
  \<^verbatim>\<open>completion.choices[0].message.content\<close>: reading a property of \<^verbatim>\<open>undefined\<close>
  throws a TypeError; a \<^verbatim>\<open>content\<close> of \<^verbatim>\<open>null\<close> is returned as it is.
\<close>

definition first_content :: "completion \<Rightarrow> js_error + jsstring option" where
  "first_content c =
     (case choices c of
        [] \<Rightarrow> Inl (TypeError (ascii ''Cannot read properties of undefined (reading 'message')''))
      | ch # _ \<Rightarrow>
          (case choice_message ch of
             None \<Rightarrow> Inl (TypeError (ascii ''Cannot read properties of undefined (reading 'content')''))
           | Some m \<Rightarrow> Inr (message_content m)))"

text \<open>The \<^verbatim>\<open>try\<close> block of \<^verbatim>\<open>summarizeArticle\<close>.\<close>

definition summarize_try :: "env \<Rightarrow> nat \<Rightarrow> article \<Rightarrow> js_error + jsstring option" where
  "summarize_try e n a =
     (case create e n (request a) of
        Inl error \<Rightarrow> Inl error
      | Inr c \<Rightarrow> first_content c)"

text \<open>The start of the fallback summary: in Korean, that making the summary failed.\<close>

definition summary_failed :: jsstring where
  "summary_failed = [0xC694, 0xC57D, 0x20, 0xC0DD, 0xC131, 0x20, 0xC2E4, 0xD328, 0x3A, 0x20]"

text \<open>
  \<^verbatim>\<open>summarizeArticle\<close>, the \<open>n\<close>-th call of the run: the \<^verbatim>\<open>catch\<close> logs the error and
  returns the template literal made of \<open>summary_failed\<close> and the title.
\<close>

definition summarizeArticle :: "env \<Rightarrow> nat \<Rightarrow> article \<Rightarrow> jsstring option \<times> event list" where
  "summarizeArticle e n a =
     (case summarize_try e n a of
        Inl error \<Rightarrow>
          (Some (summary_failed @ title a), [Call_create (request a), Error_summarizing error])
      | Inr s \<Rightarrow> (s, [Call_create (request a)]))"

section \<open>Publishing\<close>

text \<open>
  The literals of the blocks, in Korean: the heading of the day (AI news summary, a
  dash, then the date), the label of the source and the bar after it, the text of the
  link to the original, and the placeholder that stands for a missing summary.
\<close>

definition heading_prefix :: jsstring where
  "heading_prefix = [0x41, 0x49, 0x20, 0xB274, 0xC2A4, 0x20, 0xC694, 0xC57D, 0x20, 0x2D, 0x20]"

definition source_prefix :: jsstring where
  "source_prefix = [0xCD9C, 0xCC98, 0x3A, 0x20]"

definition source_suffix :: jsstring where
  "source_suffix = [0x20, 0x7C, 0x20]"

definition link_label :: jsstring where
  "link_label = [0xC6D0, 0xBB38, 0x20, 0xB9C1, 0xD06C]"

definition no_summary :: jsstring where
  "no_summary = [0xC694, 0xC57D, 0x20, 0xC5C6, 0xC74C]"

definition plain :: "jsstring \<Rightarrow> rich_text" where
  "plain c = \<lparr>text_content = c, text_link = None, bold = False, color = None\<rparr>"

definition titleBlock :: "env \<Rightarrow> block" where
  "titleBlock e = Heading_2 [plain (heading_prefix @ today e)]"

text \<open>
  \<^verbatim>\<open>summaries[index]\<close>: \<^verbatim>\<open>undefined\<close> past the end of the array, and the element
  (a string or \<^verbatim>\<open>null\<close>) otherwise.
\<close>

definition at_index :: "jsstring option list \<Rightarrow> nat \<Rightarrow> jsstring option" where
  "at_index summaries i = (if i < length summaries then summaries ! i else None)"

text \<open>The four \<^verbatim>\<open>blocks.push\<close> of one call of the function given to \<^verbatim>\<open>forEach\<close>.\<close>

definition pushed :: "article \<Rightarrow> nat \<Rightarrow> jsstring option list \<Rightarrow> block list" where
  "pushed a i summaries =
     [Heading_3 [\<lparr>text_content = title a, text_link = None, bold = True, color = None\<rparr>],
      Paragraph
        [plain (source_prefix @ source a @ source_suffix),
         \<lparr>text_content = link_label, text_link = Some (link a), bold = False,
          color = Some (ascii ''blue'')\<rparr>],
      Paragraph [plain (js_or_str (at_index summaries i) no_summary)],
      Divider]"

text \<open>\<^verbatim>\<open>articles.forEach((article, index) => ...)\<close>, from \<open>index\<close> on, on \<open>blocks\<close>.\<close>

fun forEach :: "article list \<Rightarrow> nat \<Rightarrow> jsstring option list \<Rightarrow> block list \<Rightarrow> block list" where
  "forEach [] i summaries blocks = blocks"
| "forEach (a # rest) i summaries blocks =
     forEach rest (Suc i) summaries (blocks @ pushed a i summaries)"

text \<open>
  \<^verbatim>\<open>addToNotionPage\<close>: the whole body is a \<^verbatim>\<open>try\<close> block, and the \<^verbatim>\<open>catch\<close> logs the
  error and returns.
\<close>

definition addToNotionPage :: "env \<Rightarrow> article list \<Rightarrow> jsstring option list \<Rightarrow> event list" where
  "addToNotionPage e articles summaries =
     (let blocks = forEach articles 0 summaries [titleBlock e];
          r = \<lparr>block_id = NOTION_PAGE_ID e, children = blocks\<rparr>
      in case append e r of
           Inl error \<Rightarrow> [Call_append r, Error_adding error]
         | Inr _ \<Rightarrow> [Call_append r, Log_added (length articles)])"

section \<open>The run\<close>

text \<open>
  The loop of step 2, at its \<open>n\<close>-th article: summarize, push the summary, mark the link,
  wait a second.
\<close>

fun summarize_loop ::
  "env \<Rightarrow> nat \<Rightarrow> article list \<Rightarrow> seen \<Rightarrow> jsstring option list \<times> seen \<times> event list" where
  "summarize_loop e n [] s = ([], s, [])"
| "summarize_loop e n (a # rest) s =
     (let (summ, t1) = summarizeArticle e n a;
          s1 = add (link a) s;
          (summaries, s2, t2) = summarize_loop e (Suc n) rest s1
      in (summ # summaries, s2,
          [Log_summarizing (title a)] @ t1 @ [Seen_add (link a), Set_timeout 1000] @ t2))"

text \<open>
  \<^verbatim>\<open>processAINews\<close>, from the set \<open>s\<close> of processed links: how its promise settles, the
  set afterwards and what the run did. The three functions it awaits return on every
  path (each has its own \<^verbatim>\<open>catch\<close>, modelled above), so no statement of its
  \<^verbatim>\<open>try\<close> block raises, its \<^verbatim>\<open>catch\<close> has nothing to catch, and the promise is
  fulfilled on both paths: the early return and the end of the block.
\<close>

definition processAINews :: "env \<Rightarrow> seen \<Rightarrow> (js_error + unit) \<times> seen \<times> event list" where
  "processAINews e s =
     (let (articles, t1) = fetchLatestArticles e s
      in if length articles = 0
         then (Inr (), s, [Log_starting] @ t1 @ [Log_found (length articles), Log_no_new])
         else
           (let (summaries, s2, t2) = summarize_loop e 0 articles s;
                t3 = addToNotionPage e articles summaries
            in (Inr (), s2,
                [Log_starting] @ t1 @ [Log_found (length articles)] @ t2 @ t3
                  @ [Log_completed])))"

section \<open>The manual trigger\<close>

record response =
  status :: nat
  success :: bool
  message_field :: "jsstring option"
  error_field :: "jsstring option"

text \<open>
  The handler of \<^verbatim>\<open>GET /run-now\<close>: \<^verbatim>\<open>res.json\<close> answers with status 200, and the
  \<^verbatim>\<open>catch\<close> answers a rejected \<^verbatim>\<open>processAINews()\<close> with status 500.
\<close>

definition respond :: "js_error + unit \<Rightarrow> response" where
  "respond r =
     (case r of
        Inr _ \<Rightarrow>
          \<lparr>status = 200, success = True,
           message_field = Some (ascii ''AI news processing completed''), error_field = None\<rparr>
      | Inl error \<Rightarrow>
          \<lparr>status = 500, success = False, message_field = None,
           error_field = Some (message error)\<rparr>)"

definition run_now :: "env \<Rightarrow> seen \<Rightarrow> response \<times> seen \<times> event list" where
  "run_now e s = (let (r, s', t) = processAINews e s in (respond r, s', t))"

section \<open>Reading what a run did\<close>

text \<open>The calls to the document service, the marks and the requests to the model in a run.\<close>

fun is_append :: "event \<Rightarrow> bool" where
  "is_append (Call_append r) = True"
| "is_append _ = False"

fun is_seen_add :: "event \<Rightarrow> bool" where
  "is_seen_add (Seen_add l) = True"
| "is_seen_add _ = False"

fun requests :: "event list \<Rightarrow> chat_request list" where
  "requests [] = []"
| "requests (Call_create r # t) = r # requests t"
| "requests (_ # t) = requests t"

section \<open>Sample worlds\<close>

text \<open>
  A process in a zone without offset changes, and one feed item: title \<open>T\<close>, link
  \<open>L\<close>, published at the date string \<open>D\<close>, which the parser reads as one millisecond
  before the clock's reading. In \<open>sample\<close> every feed URL serves this item, the model
  answers \<open>S\<close> and the document service accepts.
\<close>

definition utc :: timezone where
  "utc = \<lparr>tza_utc = (\<lambda>t. 0), tza_local = (\<lambda>t. 0)\<rparr>"

definition post :: item where
  "post = \<lparr>item_title = ascii ''T'', item_link = ascii ''L'',
           item_pubDate = Some (ascii ''D''), item_isoDate = None,
           item_contentSnippet = None, item_content = Some (ascii ''C''),
           item_summary = None\<rparr>"

definition blog :: feed where
  "blog = \<lparr>feed_title = Some (ascii ''B''), items = [post]\<rparr>"

definition answer :: completion where
  "answer = \<lparr>choices = [\<lparr>choice_message = Some \<lparr>message_content = Some (ascii ''S'')\<rparr>\<rparr>]\<rparr>"

definition sample :: env where
  "sample = \<lparr>tz = utc, dateParse = (\<lambda>d. if d = ascii ''D'' then Some 1000000000 else None),
     clock = (\<lambda>u. 1000000001),
     parseURL = (\<lambda>u. Inr blog),
     create = (\<lambda>n r. Inr answer), today = ascii ''2024. 3. 10.'',
     NOTION_PAGE_ID = Some (ascii ''page''),
     append = (\<lambda>r. Inr ())\<rparr>"

text \<open>Failures of the services: a feed, the model, the document service.\<close>

definition down :: js_error where
  "down = Error (ascii ''ECONNREFUSED'')"

definition refused :: js_error where
  "refused = Error (ascii ''validation_error'')"

definition patchy :: env where
  "patchy = sample\<lparr>parseURL := \<lambda>u. if u = [1] then Inl down else Inr blog\<rparr>"

definition silent :: env where
  "silent = sample\<lparr>create := \<lambda>n r. Inl down\<rparr>"

text \<open>
  Responses of the model that carry no text: no choice at all, a choice without a
  message, and a message whose content is \<^verbatim>\<open>null\<close>.
\<close>

definition empty_reply :: env where
  "empty_reply = sample\<lparr>create := \<lambda>n r. Inr \<lparr>choices = []\<rparr>\<rparr>"

definition no_message :: env where
  "no_message = sample\<lparr>create := \<lambda>n r. Inr \<lparr>choices = [\<lparr>choice_message = None\<rparr>]\<rparr>\<rparr>"

definition hollow :: env where
  "hollow = sample\<lparr>create := \<lambda>n r.
     Inr \<lparr>choices = [\<lparr>choice_message = Some \<lparr>message_content = None\<rparr>\<rparr>]\<rparr>\<rparr>"

definition rejecting :: env where
  "rejecting = sample\<lparr>append := \<lambda>r. Inl refused\<rparr>"

text \<open>An item whose only date field does not parse.\<close>

definition undated_post :: item where
  "undated_post = post\<lparr>item_pubDate := Some (ascii ''soon''), item_isoDate := None\<rparr>"

text \<open>
  A process in a zone that moved its clocks forward at 2024-03-10T07:00:00Z, from five
  to four hours behind UTC (as America/New_York did); a local time in the skipped hour
  is read with the offset before the change. \<open>sunday\<close> runs at 2024-03-10T12:00:00Z,
  time value 1710072000000, and \<open>saturday_post\<close> was published 23 hours 59 minutes
  earlier, at 2024-03-09T12:01:00Z, time value 1709985660000.
\<close>

definition new_york :: timezone where
  "new_york =
     \<lparr>tza_utc = (\<lambda>t. if t < 1710054000000 then - 18000000 else - 14400000),
      tza_local = (\<lambda>t. if t < 1710054000000 - 14400000 then - 18000000 else - 14400000)\<rparr>"

definition saturday_post :: item where
  "saturday_post = post\<lparr>item_pubDate := Some (ascii ''Sat, 09 Mar 2024 12:01:00 GMT'')\<rparr>"

definition sunday :: env where
  "sunday = sample
     \<lparr>tz := new_york,
      dateParse := \<lambda>d. if d = ascii ''Sat, 09 Mar 2024 12:01:00 GMT''
                         then Some 1709985660000 else None,
      clock := \<lambda>u. 1710072000000\<rparr>"

section \<open>Facts about the functions\<close>

text \<open>The loop over the feeds appends what each turn yields.\<close>

lemma fetch_loop_articles:
  "fst (fetch_loop e s urls) = concat (map (\<lambda>u. fst (fetch_feed e s u)) urls)"
  by (induction urls) (simp_all add: split_beta)

lemma fetch_feed_rejected:
  "parseURL e u = Inl err \<Longrightarrow> fst (fetch_feed e s u) = []"
  by (simp add: fetch_feed_def)

lemma fetch_feed_resolved:
  "parseURL e u = Inr f \<Longrightarrow>
   fst (fetch_feed e s u) =
     map (to_article f u) (filter (keep e (yesterday (tz e) (clock e u)) s) (items f))"
  by (simp add: fetch_feed_def Let_def)

text \<open>The loop of step 2: its summaries, the set it leaves and its splitting at any article.\<close>

lemma summarize_loop_summaries:
  "fst (summarize_loop e n as s) = map (\<lambda>(i, a). fst (summarizeArticle e i a)) (enumerate n as)"
  by (induction as arbitrary: n s) (simp_all add: split_beta Let_def)

lemma summarize_loop_seen:
  "fst (snd (summarize_loop e n as s)) = foldl (\<lambda>s a. add (link a) s) s as"
  by (induction as arbitrary: n s) (simp_all add: split_beta Let_def)

lemma set_add: "set (add x s) = insert x (set s)"
  by (auto simp: add_def)

lemma set_foldl_add:
  "set (foldl (\<lambda>s a. add (link a) s) s as) = set s \<union> link ` set as"
  by (induction as arbitrary: s) (auto simp: set_add)

text \<open>The blocks pushed by \<^verbatim>\<open>forEach\<close>.\<close>

lemma forEach_blocks:
  "forEach as i ss blocks = blocks @ concat (map (\<lambda>(j, a). pushed a j ss) (enumerate i as))"
  by (induction as arbitrary: i blocks) simp_all

lemma ascii_Nil [simp]: "(ascii s = []) = (s = [])"
  by (simp add: ascii_def)

text \<open>Unfolding the sample worlds and the functions of a run.\<close>

lemmas sample_defs = sample_def blog_def post_def answer_def utc_def

lemmas run_defs = fetch_feed_def keep_def isRecent_def item_date_def
      new_Date_def js_or_def js_or_str_def truthy_def date_gt_def yesterday_def UTC_def
      LocalTime_def msPerDay_def has_def add_def to_article_def summarizeArticle_def
      summarize_try_def first_content_def addToNotionPage_def processAINews_def
      fetchLatestArticles_def RSS_FEEDS_def run_now_def respond_def Let_def

text \<open>Only \<^verbatim>\<open>addToNotionPage\<close> calls the document service.\<close>

lemma fetch_feed_no_append: "filter is_append (snd (fetch_feed e s u)) = []"
  by (simp add: fetch_feed_def Let_def split: sum.split)

lemma fetch_loop_no_append: "filter is_append (snd (fetch_loop e s urls)) = []"
  by (induction urls) (simp_all add: split_beta fetch_feed_no_append)

lemma summarizeArticle_no_append: "filter is_append (snd (summarizeArticle e n a)) = []"
  by (simp add: summarizeArticle_def split: sum.split)

lemma summarize_loop_no_append: "filter is_append (snd (snd (summarize_loop e n as s))) = []"
  by (induction as arbitrary: n s) (simp_all add: split_beta Let_def summarizeArticle_no_append)

lemma addToNotionPage_rejected:
  "append e \<lparr>block_id = NOTION_PAGE_ID e, children = forEach as 0 ss [titleBlock e]\<rparr> = Inl err \<Longrightarrow>
   addToNotionPage e as ss =
     [Call_append \<lparr>block_id = NOTION_PAGE_ID e, children = forEach as 0 ss [titleBlock e]\<rparr>,
      Error_adding err]"
  by (simp add: addToNotionPage_def Let_def)

text \<open>The two paths of \<^verbatim>\<open>processAINews\<close>.\<close>

lemma processAINews_nonempty:
  "fst (fetchLatestArticles e s) \<noteq> [] \<Longrightarrow>
   processAINews e s =
     (Inr (),
      fst (snd (summarize_loop e 0 (fst (fetchLatestArticles e s)) s)),
      [Log_starting] @ snd (fetchLatestArticles e s)
        @ [Log_found (length (fst (fetchLatestArticles e s)))]
        @ snd (snd (summarize_loop e 0 (fst (fetchLatestArticles e s)) s))
        @ addToNotionPage e (fst (fetchLatestArticles e s))
            (fst (summarize_loop e 0 (fst (fetchLatestArticles e s)) s))
        @ [Log_completed])"
  by (simp add: processAINews_def split_beta Let_def)

lemma processAINews_empty:
  "fst (fetchLatestArticles e s) = [] \<Longrightarrow>
   processAINews e s =
     (Inr (), s, [Log_starting] @ snd (fetchLatestArticles e s) @ [Log_found 0, Log_no_new])"
  by (simp add: processAINews_def split_beta Let_def)

lemma processAINews_fulfilled: "fst (processAINews e s) = Inr ()"
  by (simp add: processAINews_def split_beta Let_def)

lemma replicate_8: "replicate 8 x = [x, x, x, x, x, x, x, x]"
  by (simp add: numeral_eq_Suc)

text \<open>Fetching reads neither the model nor the document service.\<close>

lemma keep_services [simp]:
  "keep (e\<lparr>append := ap\<rparr>) = keep e"
  "keep (e\<lparr>create := cr\<rparr>) = keep e"
  by (simp_all add: fun_eq_iff keep_def isRecent_def item_date_def)

lemma fetch_feed_services [simp]:
  "fetch_feed (e\<lparr>append := ap\<rparr>) s u = fetch_feed e s u"
  "fetch_feed (e\<lparr>create := cr\<rparr>) s u = fetch_feed e s u"
  by (simp_all add: fetch_feed_def Let_def split: sum.split)

lemma fetch_loop_services [simp]:
  "fetch_loop (e\<lparr>append := ap\<rparr>) s urls = fetch_loop e s urls"
  "fetch_loop (e\<lparr>create := cr\<rparr>) s urls = fetch_loop e s urls"
  by (induction urls) simp_all

lemma fetchLatestArticles_services [simp]:
  "fetchLatestArticles (e\<lparr>append := ap\<rparr>) s = fetchLatestArticles e s"
  "fetchLatestArticles (e\<lparr>create := cr\<rparr>) s = fetchLatestArticles e s"
  by (simp_all add: fetchLatestArticles_def)

text \<open>In \<open>sample\<close> each of the eight feeds yields the one article, unless its link was seen.\<close>

lemma sample_articles:
  "fst (fetchLatestArticles sample s) =
     (if ascii ''L'' \<in> set s then [] else replicate 8 (to_article blog [] post))"
  by (simp add: run_defs sample_defs replicate_8)

lemma rejecting_articles: "fst (fetchLatestArticles rejecting []) \<noteq> []"
  by (simp add: rejecting_def sample_articles replicate_8)

lemma summaries_all_failed:
  "\<forall>k < length as. \<exists>err. summarize_try e (n + k) (as ! k) = Inl err \<Longrightarrow>
   fst (summarize_loop e n as s) = map (\<lambda>a. Some (summary_failed @ title a)) as"
proof (induction as arbitrary: n s)
  case Nil
  then show ?case by simp
next
  case (Cons a as)
  from Cons.prems have "\<exists>err. summarize_try e (n + 0) ((a # as) ! 0) = Inl err"
    by blast
  then obtain err where "summarize_try e n a = Inl err"
    by auto
  then have hd: "fst (summarizeArticle e n a) = Some (summary_failed @ title a)"
    by (simp add: summarizeArticle_def)
  have "\<forall>k < length as. \<exists>err. summarize_try e (Suc n + k) (as ! k) = Inl err"
  proof (intro allI impI)
    fix k
    assume "k < length as"
    then have "\<exists>err. summarize_try e (n + Suc k) ((a # as) ! Suc k) = Inl err"
      using Cons.prems by (metis Suc_less_eq length_Cons)
    then show "\<exists>err. summarize_try e (Suc n + k) (as ! k) = Inl err"
      by simp
  qed
  then have "fst (summarize_loop e (Suc n) as (add (link a) s)) =
      map (\<lambda>a. Some (summary_failed @ title a)) as"
    by (rule Cons.IH)
  with hd show ?case
    by (simp add: split_beta Let_def)
qed

lemma pushed_zip:
  "length ss = length as \<Longrightarrow>
   map (\<lambda>(j, a). pushed a j (pre @ ss)) (enumerate (length pre) as) =
   map (\<lambda>(a, t). pushed a 0 [t]) (zip as ss)"
proof (induction as arbitrary: ss pre)
  case Nil
  then show ?case by simp
next
  case (Cons a as)
  then obtain t ts where ss: "ss = t # ts" and len: "length ts = length as"
    by (cases ss) auto
  have "map (\<lambda>(j, a). pushed a j ((pre @ [t]) @ ts)) (enumerate (length (pre @ [t])) as) =
        map (\<lambda>(a, t). pushed a 0 [t]) (zip as ts)"
    using len by (rule Cons.IH)
  then show ?case
    by (simp add: ss pushed_def at_index_def nth_append)
qed

lemma forEach_zip:
  "length ss = length as \<Longrightarrow>
   forEach as 0 ss blocks = blocks @ concat (map (\<lambda>(a, t). pushed a 0 [t]) (zip as ss))"
  using pushed_zip [of ss as "[]"] by (simp add: forEach_blocks)

lemma pushed_one:
  "pushed a 0 [t] =
     [Heading_3 [\<lparr>text_content = title a, text_link = None, bold = True, color = None\<rparr>],
      Paragraph
        [plain (source_prefix @ source a @ source_suffix),
         \<lparr>text_content = link_label, text_link = Some (link a), bold = False,
          color = Some (ascii ''blue'')\<rparr>],
      Paragraph [plain (js_or_str t no_summary)],
      Divider]"
  by (simp add: pushed_def at_index_def)

lemma ascii_blue: "ascii ''blue'' = [0x62, 0x6C, 0x75, 0x65]"
  by (simp add: ascii_def)

lemmas literal_defs = plain_def titleBlock_def heading_prefix_def source_prefix_def
  source_suffix_def link_label_def no_summary_def summary_failed_def ascii_blue

lemma fetchLatestArticles_no_append: "filter is_append (snd (fetchLatestArticles e s)) = []"
  by (simp add: fetchLatestArticles_def fetch_loop_no_append)

lemma first_content_unreadable:
  "choices c = [] \<or> (\<exists>ch rest. choices c = ch # rest \<and> choice_message ch = None) \<Longrightarrow>
   \<exists>err. first_content c = Inl err"
  by (auto simp: first_content_def)

lemma summarize_try_unreadable:
  "(\<exists>err. create e n (request a) = Inl err) \<or>
   (\<exists>c. create e n (request a) = Inr c \<and>
        (choices c = [] \<or> (\<exists>ch rest. choices c = ch # rest \<and> choice_message ch = None))) \<Longrightarrow>
   \<exists>err. summarize_try e n a = Inl err"
  using first_content_unreadable by (fastforce simp: summarize_try_def)

text \<open>Where the zone's offset never changes (UTC; Asia/Seoul, the zone of the schedule),
  \<open>yesterday\<close> is the clock's reading less 24 hours, and an item is recent exactly when
  its date parses to a time strictly after that.\<close>

lemma yesterday_fixed_offset:
  "(\<And>t. tza_utc z t = c) \<Longrightarrow> (\<And>t. tza_local z t = c) \<Longrightarrow> yesterday z now = now - 86400000"
  by (simp add: yesterday_def UTC_def LocalTime_def msPerDay_def)

lemma isRecent_fixed_offset:
  assumes "\<And>t. tza_utc (tz e) t = c" and "\<And>t. tza_local (tz e) t = c"
  shows "isRecent e (yesterday (tz e) now) it =
         (\<exists>t. item_date e it = Some t \<and> now - 86400000 < t)"
  using assms
  by (simp add: isRecent_def date_gt_def yesterday_fixed_offset [where c = c] split: option.split)

lemma item_date_undated:
  "new_Date (dateParse e) (item_pubDate it) = None \<Longrightarrow>
   new_Date (dateParse e) (item_isoDate it) = None \<Longrightarrow> item_date e it = None"
  by (simp add: item_date_def js_or_def)

lemma fetch_feed_dated:
  "a \<in> set (fst (fetch_feed e s u)) \<Longrightarrow> \<exists>t. new_Date (dateParse e) (pubDate a) = Some t"
  by (auto simp: fetch_feed_def Let_def keep_def isRecent_def item_date_def date_gt_def
      to_article_def split: sum.splits option.splits)

lemma summarize_loop_append:
  "summarize_loop e n (xs @ ys) s =
     (fst (summarize_loop e n xs s)
        @ fst (summarize_loop e (n + length xs) ys (fst (snd (summarize_loop e n xs s)))),
      fst (snd (summarize_loop e (n + length xs) ys (fst (snd (summarize_loop e n xs s))))),
      snd (snd (summarize_loop e n xs s))
        @ snd (snd (summarize_loop e (n + length xs) ys (fst (snd (summarize_loop e n xs s))))))"
  by (induction xs arbitrary: n s) (simp_all add: split_beta Let_def)

lemma addToNotionPage_no_seen_add: "filter is_seen_add (addToNotionPage e as ss) = []"
  by (simp add: addToNotionPage_def Let_def split: sum.split)

lemma processAINews_seen:
  "set (fst (snd (processAINews e s))) = set s \<union> link ` set (fst (fetchLatestArticles e s))"
proof (cases "fst (fetchLatestArticles e s) = []")
  case True
  then show ?thesis by (simp add: processAINews_empty)
next
  case False
  then show ?thesis
    by (simp add: processAINews_nonempty summarize_loop_seen set_foldl_add)
qed

text \<open>The requests to the model are those of the loop of step 2, one for each article.\<close>

lemma requests_append: "requests (t @ t') = requests t @ requests t'"
  by (induction t rule: requests.induct) simp_all

lemma requests_fetch_loop: "requests (snd (fetch_loop e s urls)) = []"
  by (induction urls)
     (simp_all add: split_beta requests_append fetch_feed_def Let_def split: sum.split)

lemma requests_fetch: "requests (snd (fetchLatestArticles e s)) = []"
  by (simp add: fetchLatestArticles_def requests_fetch_loop)

lemma requests_summarizeArticle: "requests (snd (summarizeArticle e n a)) = [request a]"
  by (simp add: summarizeArticle_def split: sum.split)

lemma requests_summarize_loop:
  "requests (snd (snd (summarize_loop e n as s))) = map request as"
  by (induction as arbitrary: n s)
     (simp_all add: split_beta Let_def requests_append requests_summarizeArticle)

lemma requests_addToNotionPage: "requests (addToNotionPage e as ss) = []"
  by (simp add: addToNotionPage_def Let_def split: sum.split)

lemma requests_processAINews:
  "requests (snd (snd (processAINews e s))) = map request (fst (fetchLatestArticles e s))"
proof (cases "fst (fetchLatestArticles e s) = []")
  case True
  then show ?thesis
    by (simp add: processAINews_empty requests_append requests_fetch)
next
  case False
  then show ?thesis
    by (simp add: processAINews_nonempty requests_append requests_fetch
        requests_summarize_loop requests_addToNotionPage)
qed

lemma fetch_feed_links_new:
  "a \<in> set (fst (fetch_feed e s u)) \<Longrightarrow> link a \<notin> set s"
  by (cases "parseURL e u")
     (auto simp: fetch_feed_def Let_def keep_def has_def to_article_def)

lemma fetched_links_new:
  "a \<in> set (fst (fetch_loop e s urls)) \<Longrightarrow> link a \<notin> set s"
  by (auto simp: fetch_loop_articles dest: fetch_feed_links_new)

lemma kept_item_fetched:
  assumes "u \<in> set urls" and "parseURL e u = Inr f" and "it \<in> set (items f)"
    and "keep e (yesterday (tz e) (clock e u)) s it"
  shows "item_link it \<in> link ` set (fst (fetch_loop e s urls))"
proof -
  have "to_article f u it \<in> set (fst (fetch_feed e s u))"
    using assms(2-4) by (simp add: fetch_feed_def Let_def)
  then have "to_article f u it \<in> set (fst (fetch_loop e s urls))"
    using assms(1) by (auto simp: fetch_loop_articles)
  moreover have "link (to_article f u it) = item_link it"
    by (simp add: to_article_def)
  ultimately show ?thesis
    by (metis imageI)
qed

section \<open>The claims\<close>

subsection \<open>C1: a rejected append\<close>

text \<open>
  C1, as the code has it. Let the run have fetched a non-empty list of articles and
  summarized them, and let the document service reject the batch \<open>r\<close>. Then
  \<^verbatim>\<open>addToNotionPage\<close> calls the service once, logs the error in its own \<^verbatim>\<open>catch\<close>
  and returns: no error reaches \<^verbatim>\<open>processAINews\<close>, which goes on to log that the
  processing completed, and its promise is fulfilled. The set of processed links is the
  one the summarizing loop left. The run calls the service exactly once, so the append is
  logged and not retried.
\<close>

theorem publish_failure_absorbed:
  assumes "articles = fst (fetchLatestArticles e s)"
    and "summaries = fst (summarize_loop e 0 articles s)"
    and "r = \<lparr>block_id = NOTION_PAGE_ID e, children = forEach articles 0 summaries [titleBlock e]\<rparr>"
    and "articles \<noteq> []"
    and "append e r = Inl err"
  shows "addToNotionPage e articles summaries = [Call_append r, Error_adding err] \<and>
         processAINews e s =
           (Inr (), fst (snd (summarize_loop e 0 articles s)),
            [Log_starting] @ snd (fetchLatestArticles e s) @ [Log_found (length articles)]
              @ snd (snd (summarize_loop e 0 articles s))
              @ [Call_append r, Error_adding err, Log_completed]) \<and>
         filter is_append (snd (snd (processAINews e s))) = [Call_append r]"
proof -
  have a: "addToNotionPage e articles summaries = [Call_append r, Error_adding err]"
    using assms(3,5) by (simp add: addToNotionPage_rejected)
  have p: "processAINews e s =
           (Inr (), fst (snd (summarize_loop e 0 articles s)),
            [Log_starting] @ snd (fetchLatestArticles e s) @ [Log_found (length articles)]
              @ snd (snd (summarize_loop e 0 articles s))
              @ [Call_append r, Error_adding err, Log_completed])"
    using assms(1,2,4) a by (simp add: processAINews_nonempty)
  have "filter is_append (snd (snd (processAINews e s))) = [Call_append r]"
    by (simp add: p fetchLatestArticles_def fetch_loop_no_append summarize_loop_no_append)
  with a p show ?thesis by simp
qed

text \<open>
  In \<open>rejecting\<close> the document service rejects every batch: the run fetches
  articles, is fulfilled and calls the service once.
\<close>

theorem publish_failure_absorbed_witness:
  "fst (fetchLatestArticles rejecting []) \<noteq> [] \<and>
   fst (processAINews rejecting []) = Inr () \<and>
   length (filter is_append (snd (snd (processAINews rejecting [])))) = 1"
proof -
  have ap: "append rejecting r = Inl refused" for r
    by (simp add: rejecting_def)
  have "filter is_append (snd (snd (processAINews rejecting []))) =
      [Call_append \<lparr>block_id = NOTION_PAGE_ID rejecting,
         children = forEach (fst (fetchLatestArticles rejecting [])) 0
           (fst (summarize_loop rejecting 0 (fst (fetchLatestArticles rejecting [])) []))
           [titleBlock rejecting]\<rparr>]"
    using publish_failure_absorbed [OF refl refl refl rejecting_articles ap] by blast
  then have "length (filter is_append (snd (snd (processAINews rejecting [])))) = 1"
    by simp
  with rejecting_articles show ?thesis
    by (simp add: processAINews_fulfilled)
qed

text \<open>
  C1 as stated asks that a rejected append ends the run with an error that reaches
  \<^verbatim>\<open>processAINews\<close> and cuts short what is left of the run. In \<open>rejecting\<close> the
  error is logged by \<^verbatim>\<open>addToNotionPage\<close>, and the run still ends with the line that
  the processing completed successfully, its promise fulfilled.
\<close>

theorem publish_failure_does_not_abort:
  "Error_adding refused \<in> set (snd (snd (processAINews rejecting []))) \<and>
   last (snd (snd (processAINews rejecting []))) = Log_completed \<and>
   fst (processAINews rejecting []) = Inr ()"
  by (simp add: processAINews_nonempty [OF rejecting_articles] addToNotionPage_def Let_def)
     (simp add: rejecting_def)

subsection \<open>C2: the answer of the manual trigger\<close>



subsection \<open>C3: the fallback summary\<close>

text \<open>
  C3, as the code has it. \<^verbatim>\<open>summarizeArticle\<close> returns on every path. If the call to
  the model rejects, or resolves to a completion without a first choice or whose first
  choice has no message, it logs the error and returns the fallback: the Korean literal
  for a failed summary, a colon and a space, followed by the article's title. If the
  first choice has a message, it returns the content of the message as it is, a
  \<^verbatim>\<open>null\<close> included. If the call rejects or is unreadable in this way for every
  article of a run that fetched some, the run is still fulfilled and its one batch for
  the document service holds, after the heading, four blocks for each fetched article in
  order, the third a paragraph whose text is the fallback with that article's title.
\<close>

theorem summarize_fallback:
  "(create e n (request a) = Inl err \<longrightarrow>
      summarizeArticle e n a =
        (Some ([0xC694, 0xC57D, 0x20, 0xC0DD, 0xC131, 0x20, 0xC2E4, 0xD328, 0x3A, 0x20] @ title a),
         [Call_create (request a), Error_summarizing err])) \<and>
   (create e n (request a) = Inr c \<and>
      (choices c = [] \<or> (\<exists>ch rest. choices c = ch # rest \<and> choice_message ch = None)) \<longrightarrow>
      (\<exists>err'. summarizeArticle e n a =
        (Some ([0xC694, 0xC57D, 0x20, 0xC0DD, 0xC131, 0x20, 0xC2E4, 0xD328, 0x3A, 0x20] @ title a),
         [Call_create (request a), Error_summarizing err']))) \<and>
   (create e n (request a) = Inr c \<and> choices c = ch # rest \<and> choice_message ch = Some m \<longrightarrow>
      summarizeArticle e n a = (message_content m, [Call_create (request a)])) \<and>
   ((\<forall>k < length (fst (fetchLatestArticles e s)).
        (\<exists>err'. create e k (request (fst (fetchLatestArticles e s) ! k)) = Inl err') \<or>
        (\<exists>c. create e k (request (fst (fetchLatestArticles e s) ! k)) = Inr c \<and>
             (choices c = [] \<or> (\<exists>ch rest. choices c = ch # rest \<and> choice_message ch = None)))) \<longrightarrow>
    fst (fetchLatestArticles e s) \<noteq> [] \<longrightarrow>
      fst (processAINews e s) = Inr () \<and>
      filter is_append (snd (snd (processAINews e s))) =
        [Call_append
           \<lparr>block_id = NOTION_PAGE_ID e,
            children =
              Heading_2 [\<lparr>text_content = [0x41, 0x49, 0x20, 0xB274, 0xC2A4, 0x20, 0xC694, 0xC57D, 0x20, 0x2D, 0x20] @ today e,
                  text_link = None, bold = False, color = None\<rparr>]
              # concat (map (\<lambda>a.
                  [Heading_3 [\<lparr>text_content = title a, text_link = None, bold = True, color = None\<rparr>],
                   Paragraph
                     [\<lparr>text_content = [0xCD9C, 0xCC98, 0x3A, 0x20] @ source a @ [0x20, 0x7C, 0x20], text_link = None,
                       bold = False, color = None\<rparr>,
                      \<lparr>text_content = [0xC6D0, 0xBB38, 0x20, 0xB9C1, 0xD06C], text_link = Some (link a),
                       bold = False, color = Some [0x62, 0x6C, 0x75, 0x65]\<rparr>],
                   Paragraph
                     [\<lparr>text_content = [0xC694, 0xC57D, 0x20, 0xC0DD, 0xC131, 0x20, 0xC2E4, 0xD328, 0x3A, 0x20] @ title a,
                       text_link = None, bold = False, color = None\<rparr>],
                   Divider]) (fst (fetchLatestArticles e s)))\<rparr>])"
proof -
  have run: "filter is_append (snd (snd (processAINews e s))) =
        [Call_append
           \<lparr>block_id = NOTION_PAGE_ID e,
            children =
              Heading_2 [\<lparr>text_content = [0x41, 0x49, 0x20, 0xB274, 0xC2A4, 0x20, 0xC694, 0xC57D, 0x20, 0x2D, 0x20] @ today e,
                  text_link = None, bold = False, color = None\<rparr>]
              # concat (map (\<lambda>a.
                  [Heading_3 [\<lparr>text_content = title a, text_link = None, bold = True, color = None\<rparr>],
                   Paragraph
                     [\<lparr>text_content = [0xCD9C, 0xCC98, 0x3A, 0x20] @ source a @ [0x20, 0x7C, 0x20], text_link = None,
                       bold = False, color = None\<rparr>,
                      \<lparr>text_content = [0xC6D0, 0xBB38, 0x20, 0xB9C1, 0xD06C], text_link = Some (link a),
                       bold = False, color = Some [0x62, 0x6C, 0x75, 0x65]\<rparr>],
                   Paragraph
                     [\<lparr>text_content = [0xC694, 0xC57D, 0x20, 0xC0DD, 0xC131, 0x20, 0xC2E4, 0xD328, 0x3A, 0x20] @ title a,
                       text_link = None, bold = False, color = None\<rparr>],
                   Divider]) (fst (fetchLatestArticles e s)))\<rparr>]"
    if all: "\<forall>k < length (fst (fetchLatestArticles e s)).
        \<exists>err'. summarize_try e k (fst (fetchLatestArticles e s) ! k) = Inl err'"
      and ne: "fst (fetchLatestArticles e s) \<noteq> []"
  proof -
    let ?as = "fst (fetchLatestArticles e s)"
    let ?ss = "map (\<lambda>a. Some (summary_failed @ title a)) ?as"
    have ss: "fst (summarize_loop e 0 ?as s) = ?ss"
      using all by (intro summaries_all_failed) simp
    have "zip ?as ?ss = map (\<lambda>a. (a, Some (summary_failed @ title a))) ?as"
      by (simp add: zip_map2 zip_same_conv_map)
    then have "forEach ?as 0 ?ss [titleBlock e] =
        titleBlock e # concat (map (\<lambda>a. pushed a 0 [Some (summary_failed @ title a)]) ?as)"
      by (simp add: forEach_zip comp_def)
    then have "filter is_append (addToNotionPage e ?as ?ss) =
        [Call_append \<lparr>block_id = NOTION_PAGE_ID e,
           children = titleBlock e
             # concat (map (\<lambda>a. pushed a 0 [Some (summary_failed @ title a)]) ?as)\<rparr>]"
      by (simp add: addToNotionPage_def Let_def split: sum.split)
    then have "filter is_append (addToNotionPage e ?as (fst (summarize_loop e 0 ?as s))) =
        [Call_append \<lparr>block_id = NOTION_PAGE_ID e,
           children = titleBlock e
             # concat (map (\<lambda>a. pushed a 0 [Some (summary_failed @ title a)]) ?as)\<rparr>]"
      by (simp only: ss)
    then show ?thesis
      by (simp add: processAINews_nonempty [OF ne] fetchLatestArticles_no_append
          summarize_loop_no_append pushed_one js_or_str_def literal_defs)
  qed
  have rejected: "summarizeArticle e n a =
        (Some ([0xC694, 0xC57D, 0x20, 0xC0DD, 0xC131, 0x20, 0xC2E4, 0xD328, 0x3A, 0x20] @ title a),
         [Call_create (request a), Error_summarizing err])"
    if "create e n (request a) = Inl err"
    using that by (simp add: summarizeArticle_def summarize_try_def summary_failed_def)
  have unreadable: "\<exists>err'. summarizeArticle e n a =
        (Some ([0xC694, 0xC57D, 0x20, 0xC0DD, 0xC131, 0x20, 0xC2E4, 0xD328, 0x3A, 0x20] @ title a),
         [Call_create (request a), Error_summarizing err'])"
    if r: "create e n (request a) = Inr c"
      and u: "choices c = [] \<or> (\<exists>ch rest. choices c = ch # rest \<and> choice_message ch = None)"
  proof -
    obtain err' where "first_content c = Inl err'"
      using first_content_unreadable [OF u] by blast
    then show ?thesis
      using r by (simp add: summarizeArticle_def summarize_try_def summary_failed_def)
  qed
  have readable: "summarizeArticle e n a = (message_content m, [Call_create (request a)])"
    if "create e n (request a) = Inr c" and "choices c = ch # rest" and "choice_message ch = Some m"
    using that by (simp add: summarizeArticle_def summarize_try_def first_content_def)
  have all: "\<forall>k < length (fst (fetchLatestArticles e s)).
        \<exists>err'. summarize_try e k (fst (fetchLatestArticles e s) ! k) = Inl err'"
    if "\<forall>k < length (fst (fetchLatestArticles e s)).
        (\<exists>err'. create e k (request (fst (fetchLatestArticles e s) ! k)) = Inl err') \<or>
        (\<exists>c. create e k (request (fst (fetchLatestArticles e s) ! k)) = Inr c \<and>
             (choices c = [] \<or> (\<exists>ch rest. choices c = ch # rest \<and> choice_message ch = None)))"
    using that summarize_try_unreadable by blast
  show ?thesis
    using rejected unreadable readable run all processAINews_fulfilled by blast
qed

text \<open>
  The sample article, title \<open>T\<close>: the fallback when the model rejects
  (\<open>silent\<close>), answers without a choice (\<open>empty_reply\<close>) or without a message
  (\<open>no_message\<close>); the answer \<open>S\<close> of \<open>sample\<close> as it is; and the run in
  \<open>silent\<close>, fulfilled with one batch appended.
\<close>

theorem summarize_fallback_witness:
  "create silent 0 (request (to_article blog [] post)) = Inl down \<and>
   summarizeArticle silent 0 (to_article blog [] post) =
     (Some ([0xC694, 0xC57D, 0x20, 0xC0DD, 0xC131, 0x20, 0xC2E4, 0xD328, 0x3A, 0x20] @ [0x54]),
      [Call_create (request (to_article blog [] post)), Error_summarizing down]) \<and>
   create empty_reply 0 (request (to_article blog [] post)) = Inr \<lparr>choices = []\<rparr> \<and>
   fst (summarizeArticle empty_reply 0 (to_article blog [] post)) =
     Some ([0xC694, 0xC57D, 0x20, 0xC0DD, 0xC131, 0x20, 0xC2E4, 0xD328, 0x3A, 0x20] @ [0x54]) \<and>
   create no_message 0 (request (to_article blog [] post)) =
     Inr \<lparr>choices = [\<lparr>choice_message = None\<rparr>]\<rparr> \<and>
   fst (summarizeArticle no_message 0 (to_article blog [] post)) =
     Some ([0xC694, 0xC57D, 0x20, 0xC0DD, 0xC131, 0x20, 0xC2E4, 0xD328, 0x3A, 0x20] @ [0x54]) \<and>
   summarizeArticle sample 0 (to_article blog [] post) =
     (Some [0x53], [Call_create (request (to_article blog [] post))]) \<and>
   fst (fetchLatestArticles silent []) \<noteq> [] \<and>
   fst (processAINews silent []) = Inr () \<and>
   length (filter is_append (snd (snd (processAINews silent [])))) = 1"
proof -
  let ?a = "to_article blog [] post"
  have t: "title ?a = [0x54]"
    by (simp add: to_article_def post_def ascii_def)
  have c: "create silent k r = Inl down" for k r
    by (simp add: silent_def)
  have ce: "create empty_reply 0 (request ?a) = Inr \<lparr>choices = []\<rparr>"
    by (simp add: empty_reply_def)
  have cn: "create no_message 0 (request ?a) = Inr \<lparr>choices = [\<lparr>choice_message = None\<rparr>]\<rparr>"
    by (simp add: no_message_def)
  have cs: "create sample 0 (request ?a) =
      Inr \<lparr>choices = [\<lparr>choice_message = Some \<lparr>message_content = Some [0x53]\<rparr>\<rparr>]\<rparr>"
    by (simp add: sample_def answer_def ascii_def)
  have ne: "fst (fetchLatestArticles silent []) \<noteq> []"
    by (simp add: silent_def sample_articles replicate_8)
  have all: "\<forall>k < length (fst (fetchLatestArticles silent [])).
        (\<exists>err'. create silent k (request (fst (fetchLatestArticles silent []) ! k)) = Inl err') \<or>
        (\<exists>c. create silent k (request (fst (fetchLatestArticles silent []) ! k)) = Inr c \<and>
             (choices c = [] \<or> (\<exists>ch rest. choices c = ch # rest \<and> choice_message ch = None)))"
    using c by blast
  from summarize_fallback [of silent 0 ?a down _ _ _ _ "[]"] c
  have one: "summarizeArticle silent 0 ?a =
     (Some ([0xC694, 0xC57D, 0x20, 0xC0DD, 0xC131, 0x20, 0xC2E4, 0xD328, 0x3A, 0x20] @ title ?a),
      [Call_create (request ?a), Error_summarizing down])"
    by blast
  from summarize_fallback [of empty_reply 0 ?a _ "\<lparr>choices = []\<rparr>"] ce
  have two: "\<exists>err'. summarizeArticle empty_reply 0 ?a =
     (Some ([0xC694, 0xC57D, 0x20, 0xC0DD, 0xC131, 0x20, 0xC2E4, 0xD328, 0x3A, 0x20] @ title ?a),
      [Call_create (request ?a), Error_summarizing err'])"
    by simp
  from summarize_fallback [of no_message 0 ?a _ "\<lparr>choices = [\<lparr>choice_message = None\<rparr>]\<rparr>"] cn
  have three: "\<exists>err'. summarizeArticle no_message 0 ?a =
     (Some ([0xC694, 0xC57D, 0x20, 0xC0DD, 0xC131, 0x20, 0xC2E4, 0xD328, 0x3A, 0x20] @ title ?a),
      [Call_create (request ?a), Error_summarizing err'])"
    by simp
  from summarize_fallback [of sample 0 ?a _
      "\<lparr>choices = [\<lparr>choice_message = Some \<lparr>message_content = Some [0x53]\<rparr>\<rparr>]\<rparr>"
      "\<lparr>choice_message = Some \<lparr>message_content = Some [0x53]\<rparr>\<rparr>" "[]"
      "\<lparr>message_content = Some [0x53]\<rparr>"] cs
  have four: "summarizeArticle sample 0 ?a = (Some [0x53], [Call_create (request ?a)])"
    by simp
  from summarize_fallback [of silent 0 ?a down _ _ _ _ "[]"] all ne
  have "\<exists>r. filter is_append (snd (snd (processAINews silent []))) = [Call_append r]"
    by blast
  then have five: "length (filter is_append (snd (snd (processAINews silent [])))) = 1"
    by auto
  from two three have two': "fst (summarizeArticle empty_reply 0 ?a) = Some ([0xC694, 0xC57D, 0x20, 0xC0DD, 0xC131, 0x20, 0xC2E4, 0xD328, 0x3A, 0x20] @ title ?a)"
    and three': "fst (summarizeArticle no_message 0 ?a) = Some ([0xC694, 0xC57D, 0x20, 0xC0DD, 0xC131, 0x20, 0xC2E4, 0xD328, 0x3A, 0x20] @ title ?a)"
    by auto
  show ?thesis
    using one two' three' four five c ce cn ne processAINews_fulfilled [of silent "[]"]
    unfolding t by blast
qed

text \<open>
  C3 as stated asks for the fallback with the title whenever the call to the model
  fails, a malformed response among the reasons. In \<open>hollow\<close> the response has a
  message without text, its content \<^verbatim>\<open>null\<close>: nothing is thrown, so
  \<^verbatim>\<open>summarizeArticle\<close> returns \<^verbatim>\<open>null\<close>, and the summary paragraph of the article
  is the placeholder for a missing summary, without the title.
\<close>

theorem null_content_is_no_fallback:
  "create hollow 0 (request (to_article blog [] post)) =
     Inr \<lparr>choices = [\<lparr>choice_message = Some \<lparr>message_content = None\<rparr>\<rparr>]\<rparr> \<and>
   title (to_article blog [] post) = [0x54] \<and>
   summarizeArticle hollow 0 (to_article blog [] post) =
     (None, [Call_create (request (to_article blog [] post))]) \<and>
   addToNotionPage hollow [to_article blog [] post]
       [fst (summarizeArticle hollow 0 (to_article blog [] post))] =
     [Call_append
        \<lparr>block_id = Some [0x70, 0x61, 0x67, 0x65],
         children =
          [Heading_2
             [\<lparr>text_content = [0x41, 0x49, 0x20, 0xB274, 0xC2A4, 0x20, 0xC694, 0xC57D, 0x20, 0x2D, 0x20]
                 @ [0x32, 0x30, 0x32, 0x34, 0x2E, 0x20, 0x33, 0x2E, 0x20, 0x31, 0x30, 0x2E],
               text_link = None, bold = False, color = None\<rparr>]]
          @ [Heading_3 [\<lparr>text_content = [0x54], text_link = None, bold = True, color = None\<rparr>],
           Paragraph
             [\<lparr>text_content = [0xCD9C, 0xCC98, 0x3A, 0x20] @ [0x42] @ [0x20, 0x7C, 0x20], text_link = None,
               bold = False, color = None\<rparr>,
              \<lparr>text_content = [0xC6D0, 0xBB38, 0x20, 0xB9C1, 0xD06C], text_link = Some ([0x4C]),
               bold = False, color = Some [0x62, 0x6C, 0x75, 0x65]\<rparr>],
           Paragraph
             [\<lparr>text_content = [0xC694, 0xC57D, 0x20, 0xC5C6, 0xC74C],
               text_link = None, bold = False, color = None\<rparr>],
           Divider]\<rparr>,
      Log_added 1]"
  by (simp add: hollow_def sample_defs summarizeArticle_def summarize_try_def first_content_def
      addToNotionPage_def Let_def pushed_def at_index_def to_article_def js_or_def js_or_str_def
      truthy_def literal_defs ascii_def)

subsection \<open>C4: a feed that cannot be fetched\<close>

text \<open>
  C4. A feed URL whose fetch or parse fails yields no article and a logged error, and the
  loop goes on: dropping the URL from the list of feeds, wherever it stands, leaves the
  fetched articles the same. \<^verbatim>\<open>fetchLatestArticles\<close> returns, in the order of
  \<^verbatim>\<open>RSS_FEEDS\<close>, the kept items of every feed that could be read, and nothing for the
  others; it has no path on which it raises.
\<close>

theorem feed_failure_isolated:
  "(parseURL e u = Inl err \<longrightarrow>
      fetch_feed e s u = ([], [Log_Fetching u, Call_parseURL u, Error_fetching u (message err)]) \<and>
      fst (fetch_loop e s (us @ u # vs)) = fst (fetch_loop e s (us @ vs))) \<and>
   fst (fetchLatestArticles e s) =
     concat (map (\<lambda>v. case parseURL e v of
                          Inl _ \<Rightarrow> []
                        | Inr f \<Rightarrow> map (to_article f v)
                            (filter (keep e (yesterday (tz e) (clock e v)) s) (items f)))
               RSS_FEEDS)"
proof -
  have "fst (fetch_feed e s v) =
      (case parseURL e v of
         Inl _ \<Rightarrow> []
       | Inr f \<Rightarrow> map (to_article f v)
           (filter (keep e (yesterday (tz e) (clock e v)) s) (items f)))" for v
    by (cases "parseURL e v") (simp_all add: fetch_feed_rejected fetch_feed_resolved)
  then show ?thesis
    by (simp add: fetch_loop_articles fetch_feed_rejected fetchLatestArticles_def)
       (simp add: fetch_feed_def)
qed

text \<open>
  In \<open>patchy\<close> the feed \<open>[1]\<close> cannot be fetched: of the feeds \<open>[0]\<close>, \<open>[1]\<close>,
  \<open>[2]\<close> the first and the last still yield their article.
\<close>

theorem feed_failure_isolated_witness:
  "parseURL patchy [1] = Inl down \<and>
   fst (fetch_feed patchy [] [1]) = [] \<and>
   fst (fetch_loop patchy [] ([[0]] @ [1] # [[2]])) = fst (fetch_loop patchy [] ([[0]] @ [[2]])) \<and>
   fst (fetch_loop patchy [] [[0], [1], [2]]) = [to_article blog [0] post, to_article blog [2] post]"
proof -
  have r: "parseURL patchy [1] = Inl down"
    by (simp add: patchy_def)
  from feed_failure_isolated [of patchy "[1]" down "[]" "[[0]]" "[[2]]"] r
  have "fetch_feed patchy [] [1] =
      ([], [Log_Fetching [1], Call_parseURL [1], Error_fetching [1] (message down)])"
    and "fst (fetch_loop patchy [] ([[0]] @ [1] # [[2]])) = fst (fetch_loop patchy [] ([[0]] @ [[2]]))"
    by blast+
  moreover have "fst (fetch_loop patchy [] [[0], [2]]) =
      [to_article blog [0] post, to_article blog [2] post]"
    by (simp add: patchy_def run_defs sample_defs)
  ultimately show ?thesis
    using r by simp
qed

subsection \<open>C5: the window of recent items\<close>

text \<open>
  C5 holds where the offset of the zone never changes (\<open>isRecent_fixed_offset\<close>), as
  the comment in the source says: only the posts of the last 24 hours. It fails in a
  zone that changes its clocks, because \<^verbatim>\<open>setDate(getDate() - 1)\<close> goes back one
  calendar day of local time. In \<open>sunday\<close>, the morning after the clocks went forward,
  \<open>yesterday\<close> is 23 hours before the clock's reading, and \<open>saturday_post\<close>, 23 hours
  59 minutes old, is not recent.
\<close>

theorem recent_window_after_clock_change:
  "clock sunday (ascii ''https://openai.com/blog/rss.xml'') = 1710072000000 \<and>
   item_date sunday saturday_post = Some (1710072000000 - (23 * 3600000 + 59 * 60000)) \<and>
   (1710072000000 - 24 * 3600000 < 1710072000000 - (23 * 3600000 + 59 * 60000 :: int)) \<and>
   yesterday (tz sunday) (clock sunday (ascii ''https://openai.com/blog/rss.xml''))
     = 1710072000000 - 23 * 3600000 \<and>
   isRecent sunday (yesterday (tz sunday) (clock sunday (ascii ''https://openai.com/blog/rss.xml'')))
     saturday_post = False \<and>
   fst (fetch_feed (sunday\<lparr>parseURL := \<lambda>u. Inr (blog\<lparr>items := [saturday_post]\<rparr>)\<rparr>) []
     (ascii ''https://openai.com/blog/rss.xml'')) = []"
  by (simp add: sunday_def sample_def saturday_post_def post_def new_york_def isRecent_def
      item_date_def new_Date_def js_or_def truthy_def date_gt_def yesterday_def UTC_def
      LocalTime_def msPerDay_def fetch_feed_def keep_def blog_def)

subsection \<open>C6: items without a date\<close>

text \<open>
  C6. An item whose \<^verbatim>\<open>pubDate\<close> and \<^verbatim>\<open>isoDate\<close> are both absent or unparsable is
  not recent and not kept, against any window and any set of processed links. The feed
  that carries it is fetched without an error, and yields what it would yield without
  the item. Every article that the loop over the feeds returns has a date that parses.
\<close>

theorem undated_item_is_dropped:
  assumes "new_Date (dateParse e) (item_pubDate it) = None"
    and "new_Date (dateParse e) (item_isoDate it) = None"
  shows "\<not> isRecent e y it \<and> \<not> keep e y s it \<and>
     (parseURL e u = Inr f \<and> items f = xs @ it # ys \<longrightarrow>
        fetch_feed e s u =
          (map (to_article f u) (filter (keep e (yesterday (tz e) (clock e u)) s) (xs @ ys)),
           [Log_Fetching u, Call_parseURL u])) \<and>
     (\<forall>a \<in> set (fst (fetch_loop e s urls)). new_Date (dateParse e) (pubDate a) \<noteq> None)"
proof -
  have d: "item_date e it = None"
    using assms by (rule item_date_undated)
  then have r: "\<not> isRecent e y' it" for y'
    by (simp add: isRecent_def date_gt_def)
  then have k: "\<not> keep e y' s it" for y'
    by (simp add: keep_def)
  have "\<forall>a \<in> set (fst (fetch_loop e s urls)). new_Date (dateParse e) (pubDate a) \<noteq> None"
    using fetch_feed_dated by (fastforce simp: fetch_loop_articles)
  then show ?thesis
    using r k by (auto simp: fetch_feed_def Let_def)
qed

text \<open>
  A feed with the sample item and \<open>undated_post\<close>, whose date \<open>soon\<close> does not parse:
  only the sample item is fetched.
\<close>

theorem undated_item_is_dropped_witness:
  "new_Date (dateParse sample) (item_pubDate undated_post) = None \<and>
   new_Date (dateParse sample) (item_isoDate undated_post) = None \<and>
   fst (fetch_feed (sample\<lparr>parseURL := \<lambda>u. Inr (blog\<lparr>items := [post, undated_post]\<rparr>)\<rparr>) [] [0])
     = [to_article blog [0] post]"
proof -
  let ?f = "blog\<lparr>items := [post, undated_post]\<rparr>"
  let ?e = "sample\<lparr>parseURL := \<lambda>u. Inr ?f\<rparr>"
  have p: "new_Date (dateParse ?e) (item_pubDate undated_post) = None"
    by (simp add: sample_def undated_post_def post_def new_Date_def ascii_def)
  have i: "new_Date (dateParse ?e) (item_isoDate undated_post) = None"
    by (simp add: sample_def undated_post_def post_def new_Date_def)
  have f: "parseURL ?e [0] = Inr ?f \<and> items ?f = [post] @ undated_post # []"
    by simp
  from undated_item_is_dropped [OF p i, of _ "[]" "[0]" ?f "[post]" "[]"] f
  have "fetch_feed ?e [] [0] =
          (map (to_article ?f [0])
             (filter (keep ?e (yesterday (tz ?e) (clock ?e [0])) []) ([post] @ [])),
           [Log_Fetching [0], Call_parseURL [0]])"
    by blast
  then have "fst (fetch_feed ?e [] [0]) = [to_article blog [0] post]"
    by (simp add: run_defs sample_defs)
  with p i show ?thesis
    by simp
qed

subsection \<open>C7: when a link is marked\<close>

text \<open>
  C7. At any article \<open>a\<close> of the list, after the articles \<open>xs\<close> and before \<open>ys\<close>:
  the loop summarizes \<open>a\<close>, then marks its link, then waits, and only then goes on to
  \<open>ys\<close>, from the set that already has the link of \<open>a\<close>. Summarizing marks nothing
  itself, whether it succeeds or returns the fallback; the set that \<open>a\<close> starts from
  holds the links of \<open>xs\<close>. \<^verbatim>\<open>addToNotionPage\<close> marks nothing and has no access to
  the set: a run that fetched articles ends with the set the loop left, all links
  marked, and publishes after the loop.
\<close>

theorem marked_after_each_summary:
  "summarize_loop e n (xs @ a # ys) s =
     (fst (summarize_loop e n xs s) @ fst (summarizeArticle e (n + length xs) a)
        # fst (summarize_loop e (Suc (n + length xs)) ys
                (add (link a) (fst (snd (summarize_loop e n xs s))))),
      fst (snd (summarize_loop e (Suc (n + length xs)) ys
                (add (link a) (fst (snd (summarize_loop e n xs s)))))),
      snd (snd (summarize_loop e n xs s))
        @ [Log_summarizing (title a)] @ snd (summarizeArticle e (n + length xs) a)
        @ [Seen_add (link a), Set_timeout 1000]
        @ snd (snd (summarize_loop e (Suc (n + length xs)) ys
                (add (link a) (fst (snd (summarize_loop e n xs s))))))) \<and>
   has (add (link a) (fst (snd (summarize_loop e n xs s)))) (link a) \<and>
   fst (snd (summarize_loop e n xs s)) = foldl (\<lambda>s b. add (link b) s) s xs \<and>
   filter is_seen_add (snd (summarizeArticle e (n + length xs) a)) = [] \<and>
   filter is_seen_add (addToNotionPage e articles summaries) = [] \<and>
   (fst (fetchLatestArticles e s) \<noteq> [] \<longrightarrow>
      processAINews e s =
        (Inr (),
         foldl (\<lambda>s b. add (link b) s) s (fst (fetchLatestArticles e s)),
         [Log_starting] @ snd (fetchLatestArticles e s)
           @ [Log_found (length (fst (fetchLatestArticles e s)))]
           @ snd (snd (summarize_loop e 0 (fst (fetchLatestArticles e s)) s))
           @ addToNotionPage e (fst (fetchLatestArticles e s))
               (fst (summarize_loop e 0 (fst (fetchLatestArticles e s)) s))
           @ [Log_completed]))"
proof -
  have "filter is_seen_add (snd (summarizeArticle e (n + length xs) a)) = []"
    by (simp add: summarizeArticle_def split: sum.split)
  then show ?thesis
    by (simp add: summarize_loop_append split_beta Let_def has_def set_add
        summarize_loop_seen addToNotionPage_no_seen_add processAINews_nonempty)
qed

text \<open>
  In \<open>sample\<close> the run marks the link \<open>L\<close> once for each of its eight articles and
  ends with the set holding \<open>L\<close>.
\<close>

theorem marked_after_each_summary_witness:
  "fst (fetchLatestArticles sample []) \<noteq> [] \<and>
   fst (snd (processAINews sample [])) = [ascii ''L''] \<and>
   filter is_seen_add (snd (snd (processAINews sample []))) = replicate 8 (Seen_add (ascii ''L''))"
proof -
  have ne: "fst (fetchLatestArticles sample []) \<noteq> []"
    by (simp add: sample_articles replicate_8)
  from marked_after_each_summary [of sample 0 "[]" "to_article blog [] post" "[]" "[]"] ne
  have "processAINews sample [] =
        (Inr (),
         foldl (\<lambda>s b. add (link b) s) [] (fst (fetchLatestArticles sample [])),
         [Log_starting] @ snd (fetchLatestArticles sample [])
           @ [Log_found (length (fst (fetchLatestArticles sample [])))]
           @ snd (snd (summarize_loop sample 0 (fst (fetchLatestArticles sample [])) []))
           @ addToNotionPage sample (fst (fetchLatestArticles sample []))
               (fst (summarize_loop sample 0 (fst (fetchLatestArticles sample [])) []))
           @ [Log_completed])"
    by blast
  then show ?thesis
    using ne
    by (simp add: sample_articles replicate_8)
       (simp add: run_defs sample_defs)
qed

subsection \<open>C8: a second run\<close>

text \<open>
  C8. Let a run from the set \<open>s0\<close> leave the set \<open>s1\<close>, and let a second run start
  from \<open>s1\<close> in a world where every feed answers as before and every item that the
  second window takes as recent was recent in the first (so when both windows admit the
  same items). Then the second run fetches no article: it logs that nothing is new,
  leaves the set as it is, sends no request to the model and appends nothing.
\<close>

theorem second_run_processes_nothing:
  assumes run1: "processAINews e1 s0 = (r1, s1, t1)"
    and same: "\<forall>u \<in> set RSS_FEEDS. parseURL e2 u = parseURL e1 u"
    and window: "\<forall>u \<in> set RSS_FEEDS. \<forall>f. parseURL e1 u = Inr f \<longrightarrow>
        (\<forall>it \<in> set (items f).
           isRecent e2 (yesterday (tz e2) (clock e2 u)) it \<longrightarrow>
           isRecent e1 (yesterday (tz e1) (clock e1 u)) it)"
  shows "link ` set (fst (fetchLatestArticles e1 s0)) \<subseteq> set s1 \<and>
         fst (fetchLatestArticles e2 s1) = [] \<and>
         processAINews e2 s1 =
           (Inr (), s1, [Log_starting] @ snd (fetchLatestArticles e2 s1) @ [Log_found 0, Log_no_new]) \<and>
         requests (snd (snd (processAINews e2 s1))) = [] \<and>
         filter is_append (snd (snd (processAINews e2 s1))) = []"
proof -
  have s1: "set s1 = set s0 \<union> link ` set (fst (fetch_loop e1 s0 RSS_FEEDS))"
    using processAINews_seen [of e1 s0] run1 by (simp add: fetchLatestArticles_def)
  have none: "fst (fetch_feed e2 s1 u) = []" if u: "u \<in> set RSS_FEEDS" for u
  proof (cases "parseURL e1 u")
    case (Inl err)
    then have "parseURL e2 u = Inl err"
      using same u by simp
    then show ?thesis
      by (rule fetch_feed_rejected)
  next
    case (Inr f)
    then have f2: "parseURL e2 u = Inr f"
      using same u by simp
    have "\<not> keep e2 (yesterday (tz e2) (clock e2 u)) s1 it" if it: "it \<in> set (items f)" for it
    proof
      assume k: "keep e2 (yesterday (tz e2) (clock e2 u)) s1 it"
      then have "isRecent e1 (yesterday (tz e1) (clock e1 u)) it"
        using window u Inr it by (auto simp: keep_def)
      moreover have new: "item_link it \<notin> set s1"
        using k by (simp add: keep_def has_def)
      then have "item_link it \<notin> set s0"
        using s1 by simp
      ultimately have "keep e1 (yesterday (tz e1) (clock e1 u)) s0 it"
        by (simp add: keep_def has_def)
      then have "item_link it \<in> link ` set (fst (fetch_loop e1 s0 RSS_FEEDS))"
        using u Inr it by (rule kept_item_fetched [rotated 3])
      with new s1 show False
        by simp
    qed
    then have "filter (keep e2 (yesterday (tz e2) (clock e2 u)) s1) (items f) = []"
      by (simp add: filter_empty_conv)
    then show ?thesis
      by (simp add: fetch_feed_resolved [OF f2])
  qed
  have empty: "fst (fetchLatestArticles e2 s1) = []"
    by (simp add: fetchLatestArticles_def fetch_loop_articles none)
  have "link ` set (fst (fetchLatestArticles e1 s0)) \<subseteq> set s1"
    using s1 by (simp add: fetchLatestArticles_def)
  with empty show ?thesis
    by (simp add: processAINews_empty requests_append requests_fetch
        fetchLatestArticles_no_append)
qed

text \<open>
  In \<open>sample\<close> the first run sends eight requests and leaves the set holding \<open>L\<close>; a
  second run one millisecond later fetches nothing and sends no request.
\<close>

theorem second_run_processes_nothing_witness:
  "processAINews sample [] = (Inr (), [ascii ''L''], snd (snd (processAINews sample []))) \<and>
   length (requests (snd (snd (processAINews sample [])))) = 8 \<and>
   fst (fetchLatestArticles (sample\<lparr>clock := \<lambda>u. 1000000002\<rparr>) [ascii ''L'']) = [] \<and>
   requests (snd (snd (processAINews (sample\<lparr>clock := \<lambda>u. 1000000002\<rparr>) [ascii ''L'']))) = []"
proof -
  let ?e2 = "sample\<lparr>clock := \<lambda>u. 1000000002\<rparr>"
  have ne: "fst (fetchLatestArticles sample []) \<noteq> []"
    by (simp add: sample_articles replicate_8)
  have "fst (snd (processAINews sample [])) =
      foldl (\<lambda>s b. add (link b) s) [] (fst (fetchLatestArticles sample []))"
    by (simp add: processAINews_nonempty [OF ne] summarize_loop_seen)
  then have s1: "fst (snd (processAINews sample [])) = [ascii ''L'']"
    by (simp add: sample_articles replicate_8 add_def to_article_def post_def)
  have run1: "processAINews sample [] = (Inr (), [ascii ''L''], snd (snd (processAINews sample [])))"
    using s1 processAINews_fulfilled [of sample "[]"] by (metis prod.collapse)
  have same: "\<forall>u \<in> set RSS_FEEDS. parseURL ?e2 u = parseURL sample u"
    by simp
  have window: "\<forall>u \<in> set RSS_FEEDS. \<forall>f. parseURL sample u = Inr f \<longrightarrow>
        (\<forall>it \<in> set (items f).
           isRecent ?e2 (yesterday (tz ?e2) (clock ?e2 u)) it \<longrightarrow>
           isRecent sample (yesterday (tz sample) (clock sample u)) it)"
    by (simp add: sample_defs isRecent_def item_date_def new_Date_def js_or_def truthy_def
        date_gt_def yesterday_def UTC_def LocalTime_def msPerDay_def)
  have n: "length (requests (snd (snd (processAINews sample [])))) = 8"
    by (simp add: requests_processAINews sample_articles)
  from second_run_processes_nothing [OF run1 same window]
  have "fst (fetchLatestArticles ?e2 [ascii ''L'']) = []"
    and "requests (snd (snd (processAINews ?e2 [ascii ''L'']))) = []"
    by blast+
  with run1 n show ?thesis
    by blast
qed

subsection \<open>C9: requests for one link\<close>

text \<open>
  C9, as the code has it. A run sends one request to the model for each fetched article,
  in the order fetched, and no fetched article has a link that was in the set of
  processed links when the run began. Links are not compared within a run: an item
  carried by several feeds is fetched, and summarized, once for each.
\<close>

theorem one_request_per_fetched_article:
  "requests (snd (snd (processAINews e s))) = map request (fst (fetchLatestArticles e s)) \<and>
   (\<forall>a \<in> set (fst (fetchLatestArticles e s)). \<not> has s (link a))"
  using fetched_links_new [of _ e s RSS_FEEDS]
  by (auto simp: requests_processAINews has_def fetchLatestArticles_def)

text \<open>
  In \<open>sample\<close> the eight requests of the run are those for the sample article.
\<close>

theorem one_request_per_fetched_article_witness:
  "requests (snd (snd (processAINews sample []))) = replicate 8 (request (to_article blog [] post)) \<and>
   \<not> has [] (link (to_article blog [] post))"
  using one_request_per_fetched_article [of sample "[]"]
  by (simp add: sample_articles has_def)

text \<open>
  C9 as stated asks for at most one request for a link in a run. In \<open>sample\<close> the
  eight feeds carry the same item; the fetched articles all have the link \<open>L\<close>, and
  the run sends eight requests.
\<close>

theorem same_link_summarized_again:
  "map link (fst (fetchLatestArticles sample [])) = replicate 8 (ascii ''L'') \<and>
   length (requests (snd (snd (processAINews sample [])))) = 8"
  by (simp add: requests_processAINews sample_articles to_article_def post_def)

subsection \<open>C10: the blocks of a batch\<close>

text \<open>
  C10. For articles paired with their summaries, \<^verbatim>\<open>addToNotionPage\<close> calls the
  document service once, with one batch: a heading with \<open>heading_prefix\<close> and the
  date, then for each article in order a bold heading with its title, a paragraph with
  its source and a link to it, a paragraph with its summary, or \<open>no_summary\<close> when the
  summary is \<^verbatim>\<open>null\<close> or empty, and a divider: one block and four for each article.
  It then logs the outcome of the call.
\<close>

theorem blocks_of_a_batch:
  assumes "length summaries = length articles"
  shows
    "(let r = \<lparr>block_id = NOTION_PAGE_ID e,
              children =
                Heading_2 [\<lparr>text_content = [0x41, 0x49, 0x20, 0xB274, 0xC2A4, 0x20, 0xC694, 0xC57D, 0x20, 0x2D, 0x20] @ today e,
                  text_link = None, bold = False, color = None\<rparr>]
                # concat (map (\<lambda>(a, t).
                    [Heading_3 [\<lparr>text_content = title a, text_link = None, bold = True, color = None\<rparr>],
                     Paragraph
                       [\<lparr>text_content = [0xCD9C, 0xCC98, 0x3A, 0x20] @ source a @ [0x20, 0x7C, 0x20], text_link = None,
                         bold = False, color = None\<rparr>,
                        \<lparr>text_content = [0xC6D0, 0xBB38, 0x20, 0xB9C1, 0xD06C], text_link = Some (link a),
                         bold = False, color = Some [0x62, 0x6C, 0x75, 0x65]\<rparr>],
                     Paragraph
                       [\<lparr>text_content = (case t of None \<Rightarrow> [0xC694, 0xC57D, 0x20, 0xC5C6, 0xC74C]
                     | Some x \<Rightarrow> if x \<noteq> [] then x else [0xC694, 0xC57D, 0x20, 0xC5C6, 0xC74C]),
                         text_link = None, bold = False, color = None\<rparr>],
                     Divider]) (zip articles summaries))\<rparr>
      in addToNotionPage e articles summaries =
           [Call_append r,
            case append e r of Inl err \<Rightarrow> Error_adding err
            | Inr _ \<Rightarrow> Log_added (length articles)] \<and>
         length (children r) = 1 + 4 * length articles)"
proof -
  define four :: "article \<times> jsstring option \<Rightarrow> block list" where
    "four = (\<lambda>(a, t).
                    [Heading_3 [\<lparr>text_content = title a, text_link = None, bold = True, color = None\<rparr>],
                     Paragraph
                       [\<lparr>text_content = [0xCD9C, 0xCC98, 0x3A, 0x20] @ source a @ [0x20, 0x7C, 0x20], text_link = None,
                         bold = False, color = None\<rparr>,
                        \<lparr>text_content = [0xC6D0, 0xBB38, 0x20, 0xB9C1, 0xD06C], text_link = Some (link a),
                         bold = False, color = Some [0x62, 0x6C, 0x75, 0x65]\<rparr>],
                     Paragraph
                       [\<lparr>text_content = (case t of None \<Rightarrow> [0xC694, 0xC57D, 0x20, 0xC5C6, 0xC74C]
                     | Some x \<Rightarrow> if x \<noteq> [] then x else [0xC694, 0xC57D, 0x20, 0xC5C6, 0xC74C]),
                         text_link = None, bold = False, color = None\<rparr>],
                     Divider])"
  define day where
    "day = Heading_2 [\<lparr>text_content = [0x41, 0x49, 0x20, 0xB274, 0xC2A4, 0x20, 0xC694, 0xC57D, 0x20, 0x2D, 0x20] @ today e,
                  text_link = None, bold = False, color = None\<rparr>]"
  have four: "(\<lambda>(a, t). pushed a 0 [t]) = four"
    by (simp add: four_def fun_eq_iff pushed_one js_or_str_def literal_defs)
  have "titleBlock e = day"
    by (simp add: day_def literal_defs)
  then have blocks: "forEach articles 0 summaries [titleBlock e] =
      day # concat (map four (zip articles summaries))"
    using assms by (simp add: forEach_zip four)
  have len: "length (concat (map four ps)) = 4 * length ps" for ps
    by (induction ps) (simp_all add: four_def split_beta)
  have "(let r = \<lparr>block_id = NOTION_PAGE_ID e,
                children = day # concat (map four (zip articles summaries))\<rparr>
      in addToNotionPage e articles summaries =
           [Call_append r,
            case append e r of Inl err \<Rightarrow> Error_adding err
            | Inr _ \<Rightarrow> Log_added (length articles)] \<and>
         length (children r) = 1 + 4 * length articles)"
    unfolding Let_def addToNotionPage_def blocks
    using assms by (simp add: len split: sum.split)
  then show ?thesis
    unfolding four_def day_def .
qed

text \<open>
  The batch for the sample article with a summary of \<^verbatim>\<open>null\<close>.
\<close>

theorem blocks_of_a_batch_witness:
  "addToNotionPage sample
     [to_article blog [] post, to_article blog [] post] [None, Some [0x53]] =
     [Call_append
        \<lparr>block_id = Some [0x70, 0x61, 0x67, 0x65],
         children =
          [Heading_2
             [\<lparr>text_content = [0x41, 0x49, 0x20, 0xB274, 0xC2A4, 0x20, 0xC694, 0xC57D, 0x20, 0x2D, 0x20]
                 @ [0x32, 0x30, 0x32, 0x34, 0x2E, 0x20, 0x33, 0x2E, 0x20, 0x31, 0x30, 0x2E],
               text_link = None, bold = False, color = None\<rparr>]]
          @ [Heading_3 [\<lparr>text_content = [0x54], text_link = None, bold = True, color = None\<rparr>],
           Paragraph
             [\<lparr>text_content = [0xCD9C, 0xCC98, 0x3A, 0x20] @ [0x42] @ [0x20, 0x7C, 0x20], text_link = None,
               bold = False, color = None\<rparr>,
              \<lparr>text_content = [0xC6D0, 0xBB38, 0x20, 0xB9C1, 0xD06C], text_link = Some ([0x4C]),
               bold = False, color = Some [0x62, 0x6C, 0x75, 0x65]\<rparr>],
           Paragraph
             [\<lparr>text_content = [0xC694, 0xC57D, 0x20, 0xC5C6, 0xC74C],
               text_link = None, bold = False, color = None\<rparr>],
           Divider]
          @ [Heading_3 [\<lparr>text_content = [0x54], text_link = None, bold = True, color = None\<rparr>],
           Paragraph
             [\<lparr>text_content = [0xCD9C, 0xCC98, 0x3A, 0x20] @ [0x42] @ [0x20, 0x7C, 0x20], text_link = None,
               bold = False, color = None\<rparr>,
              \<lparr>text_content = [0xC6D0, 0xBB38, 0x20, 0xB9C1, 0xD06C], text_link = Some ([0x4C]),
               bold = False, color = Some [0x62, 0x6C, 0x75, 0x65]\<rparr>],
           Paragraph
             [\<lparr>text_content = [0x53],
               text_link = None, bold = False, color = None\<rparr>],
           Divider]\<rparr>,
      Log_added 2]"
proof -
  have "length [None, Some [0x53 :: 16 word]] = length [to_article blog [] post, to_article blog [] post]"
    by simp
  from blocks_of_a_batch [OF this, of sample] show ?thesis
    by (simp add: Let_def to_article_def js_or_def js_or_str_def truthy_def sample_defs ascii_def)
qed

end
